theory Spec2Isabelle
  imports Complex_Main "HOL-Library.Multiset"
begin

section \<open>Values and readings\<close>

text \<open>
  The components of the dashboard are pure functions from arrays of readings to arrays of
  chart rows. A JavaScript number is modelled as an exact rational (rounding of IEEE
  doubles is not modelled); a field that can also hold \<open>null\<close>, \<open>undefined\<close> or
  \<open>NaN\<close> is a \<open>jsnum\<close>.
\<close>

datatype jsnum = Num rat | Null | Undefined | NaN

text \<open>\<^verbatim>\<open>interface DataPoint { date: string; value: number; }\<close>\<close>

record DataPoint =
  date :: string
  val :: rat

section \<open>Calendar dates\<close>

text \<open>
  The date functions of the JavaScript runtime and of date-fns that the components call,
  restricted to what the components use. A valid date is a civil day (year, month index
  0-11, day of month); an \<open>Invalid Date\<close> is \<open>None\<close>. Date strings have the form of
  the input contract, \<^verbatim>\<open>YYYY-MM-DD\<close>; any other string, and a day the month does not
  have, is an Invalid Date. The local time zone is taken to be at or east of UTC (the
  stations are in Thailand, UTC+7), so that \<^verbatim>\<open>new Date("YYYY-MM-DD")\<close> (UTC midnight) and
  \<^verbatim>\<open>parseISO("YYYY-MM-DD")\<close> (local midnight) fall on the same local day.
\<close>

datatype jsdate = JSDate (getFullYear: int) (getMonth: nat) (getDate: nat)

abbreviation getYear :: "jsdate \<Rightarrow> int" where
  "getYear \<equiv> getFullYear"

definition isLeapYear :: "int \<Rightarrow> bool" where
  "isLeapYear y = (y mod 4 = 0 \<and> (y mod 100 \<noteq> 0 \<or> y mod 400 = 0))"

definition getDaysInMonth :: "int \<Rightarrow> nat \<Rightarrow> nat" where
  "getDaysInMonth y m =
     (if m = 1 then (if isLeapYear y then 29 else 28)
      else if m = 3 \<or> m = 5 \<or> m = 8 \<or> m = 10 then 30 else 31)"

text \<open>Days from 0000-01-01 (proleptic Gregorian) to the first day of year \<open>y\<close>.\<close>

definition daysBeforeYear :: "int \<Rightarrow> int" where
  "daysBeforeYear y = 365 * y + (y + 3) div 4 - (y + 99) div 100 + (y + 399) div 400"

definition daysBeforeMonth :: "int \<Rightarrow> nat \<Rightarrow> int" where
  "daysBeforeMonth y m = int (sum_list (map (getDaysInMonth y) [0..<m]))"

text \<open>Days since 1970-01-01, and \<^verbatim>\<open>Date.prototype.getTime\<close> of the day's UTC midnight.\<close>

definition daysSinceEpoch :: "jsdate \<Rightarrow> int" where
  "daysSinceEpoch d =
     daysBeforeYear (getFullYear d) + daysBeforeMonth (getFullYear d) (getMonth d)
       + int (getDate d) - 1 - 719528"

definition getTime :: "jsdate \<Rightarrow> int" where
  "getTime d = 86400000 * daysSinceEpoch d"

text \<open>\<^verbatim>\<open>getDay\<close>: 0 for Sunday, 1 for Monday, ..., 6 for Saturday (1970-01-01 was a Thursday).\<close>

definition weekdayOfDay :: "int \<Rightarrow> nat" where
  "weekdayOfDay n = nat ((n + 4) mod 7)"

definition getDay :: "jsdate \<Rightarrow> nat" where
  "getDay d = weekdayOfDay (daysSinceEpoch d)"

subsection \<open>Parsing and formatting \<^verbatim>\<open>YYYY-MM-DD\<close>\<close>

definition digitOf :: "char \<Rightarrow> nat option" where
  "digitOf c = (let n = (of_char c :: nat) in if 48 \<le> n \<and> n \<le> 57 then Some (n - 48) else None)"

fun digitsOf :: "string \<Rightarrow> nat option" where
  "digitsOf [] = None"
| "digitsOf [c] = digitOf c"
| "digitsOf cs =
     (case (digitsOf (butlast cs), digitOf (last cs)) of
        (Some n, Some k) \<Rightarrow> Some (10 * n + k) | _ \<Rightarrow> None)"

definition parseYMD :: "string \<Rightarrow> jsdate option" where
  "parseYMD s =
     (if length s = 10 \<and> s ! 4 = CHR ''-'' \<and> s ! 7 = CHR ''-'' then
        (case (digitsOf (take 4 s), digitsOf (take 2 (drop 5 s)), digitsOf (drop 8 s)) of
           (Some y, Some m, Some d) \<Rightarrow>
             if 1 \<le> m \<and> m \<le> 12 \<and> 1 \<le> d \<and> d \<le> getDaysInMonth (int y) (m - 1)
             then Some (JSDate (int y) (m - 1) d) else None
         | _ \<Rightarrow> None)
      else None)"

text \<open>\<^verbatim>\<open>parseISO(s)\<close> of date-fns and \<^verbatim>\<open>new Date(s)\<close> on a date string.\<close>

definition parseISO :: "string \<Rightarrow> jsdate option" where
  "parseISO s = parseYMD s"

definition newDate :: "string \<Rightarrow> jsdate option" where
  "newDate s = parseYMD s"

definition digitChar :: "nat \<Rightarrow> char" where
  "digitChar n = ''0123456789'' ! (n mod 10)"

fun decimal :: "nat \<Rightarrow> string" where
  "decimal n = (if n < 10 then [digitChar n] else decimal (n div 10) @ [digitChar n])"

declare decimal.simps [simp del]

definition addLeadingZeros :: "nat \<Rightarrow> nat \<Rightarrow> string" where
  "addLeadingZeros n len = replicate (len - length (decimal n)) (CHR ''0'') @ decimal n"

text \<open>\<^verbatim>\<open>format(date, 'yyyy-MM-dd')\<close>; the year token prints \<open>1 - y\<close> for a year \<open>y \<le> 0\<close>.\<close>

definition format_yyyy_MM_dd :: "jsdate \<Rightarrow> string" where
  "format_yyyy_MM_dd d =
     addLeadingZeros (nat (if getFullYear d > 0 then getFullYear d else 1 - getFullYear d)) 4
       @ ''-'' @ addLeadingZeros (getMonth d + 1) 2 @ ''-'' @ addLeadingZeros (getDate d) 2"

subsection \<open>ISO weeks\<close>

text \<open>
  date-fns computes on timestamps; the model computes on day numbers (days since the
  epoch). \<^verbatim>\<open>startOfISOWeek\<close> goes back to the Monday of the week, \<^verbatim>\<open>getISOWeekYear\<close>
  compares the day with the Mondays of the weeks of January 4 of this and the next year,
  and \<^verbatim>\<open>getISOWeek\<close> counts the weeks from the start of the ISO week-year.
\<close>

definition startOfISOWeek :: "int \<Rightarrow> int" where
  "startOfISOWeek n =
     (let day = int (weekdayOfDay n); diff = (if day < 1 then 7 else 0) + day - 1 in n - diff)"

definition getISOWeekYear :: "jsdate \<Rightarrow> int" where
  "getISOWeekYear d =
     (let year = getFullYear d;
          startOfNextYear = startOfISOWeek (daysSinceEpoch (JSDate (year + 1) 0 4));
          startOfThisYear = startOfISOWeek (daysSinceEpoch (JSDate year 0 4))
      in if daysSinceEpoch d \<ge> startOfNextYear then year + 1
         else if daysSinceEpoch d \<ge> startOfThisYear then year
         else year - 1)"

definition startOfISOWeekYear :: "jsdate \<Rightarrow> int" where
  "startOfISOWeekYear d = startOfISOWeek (daysSinceEpoch (JSDate (getISOWeekYear d) 0 4))"

definition getISOWeek :: "jsdate \<Rightarrow> nat" where
  "getISOWeek d =
     nat ((startOfISOWeek (daysSinceEpoch d) - startOfISOWeekYear d) div 7 + 1)"

section \<open>SeasonalChart: the seasonal comparison table\<close>

text \<open>\<^verbatim>\<open>calculateMedian\<close>: 0 on the empty array, else the middle of the sorted copy.\<close>

definition calculateMedian :: "rat list \<Rightarrow> rat" where
  "calculateMedian values =
     (if length values = 0 then 0
      else let sorted = sort values; mid = length sorted div 2
           in if length sorted mod 2 \<noteq> 0 then sorted ! mid
              else (sorted ! (mid - 1) + sorted ! mid) / 2)"

definition currentYear :: int where "currentYear = 2025"
definition prevYear :: int where "prevYear = 2024"
definition medianStartYear :: int where "medianStartYear = 2020"
definition medianEndYear :: int where "medianEndYear = 2024"

definition monthNames :: "string list" where
  "monthNames = [''Jan'', ''Feb'', ''Mar'', ''Apr'', ''May'', ''Jun'',
                 ''Jul'', ''Aug'', ''Sep'', ''Oct'', ''Nov'', ''Dec'']"

text \<open>
  The three bucket tables, each from a month index to the values pushed so far; all
  twelve buckets start empty.
\<close>

record Buckets =
  monthlyData2025 :: "nat \<Rightarrow> rat list"
  monthlyData2024 :: "nat \<Rightarrow> rat list"
  monthlyDataMedian :: "nat \<Rightarrow> rat list"

definition emptyBuckets :: Buckets where
  "emptyBuckets =
     \<lparr>monthlyData2025 = (\<lambda>_. []), monthlyData2024 = (\<lambda>_. []), monthlyDataMedian = (\<lambda>_. [])\<rparr>"

text \<open>
  The body of \<^verbatim>\<open>data.forEach\<close>. For an Invalid Date the year is \<open>NaN\<close>, every comparison
  is false and nothing is pushed.
\<close>

definition pushReading :: "Buckets \<Rightarrow> DataPoint \<Rightarrow> Buckets" where
  "pushReading b d =
     (case parseISO (date d) of
        None \<Rightarrow> b
      | Some dt \<Rightarrow>
          let year = getYear dt; month = getMonth dt; v = val d;
              b1 = (if year = currentYear
                    then b\<lparr>monthlyData2025 := (monthlyData2025 b)(month := monthlyData2025 b month @ [v])\<rparr>
                    else b);
              b2 = (if year = prevYear
                    then b1\<lparr>monthlyData2024 := (monthlyData2024 b1)(month := monthlyData2024 b1 month @ [v])\<rparr>
                    else b1)
          in (if year \<ge> medianStartYear \<and> year \<le> medianEndYear
              then b2\<lparr>monthlyDataMedian := (monthlyDataMedian b2)(month := monthlyDataMedian b2 month @ [v])\<rparr>
              else b2))"

definition fillBuckets :: "DataPoint list \<Rightarrow> Buckets" where
  "fillBuckets data = foldl pushReading emptyBuckets data"

record SeasonalRow =
  month :: string
  current :: jsnum
  prev :: jsnum
  median :: jsnum

text \<open>\<^verbatim>\<open>vals.reduce((a, b) => a + b, 0) / vals.length\<close>, guarded by \<^verbatim>\<open>vals.length > 0\<close>.\<close>

definition meanOrNull :: "rat list \<Rightarrow> jsnum" where
  "meanOrNull vals =
     (if length vals > 0 then Num (foldl (+) 0 vals / of_nat (length vals)) else Null)"

text \<open>The loop that computes the statistics of each month \<open>i\<close> of 0..11.\<close>

definition monthRow :: "Buckets \<Rightarrow> nat \<Rightarrow> SeasonalRow" where
  "monthRow b i =
     (let vals2025 = monthlyData2025 b i; vals2024 = monthlyData2024 b i;
          valsMedian = monthlyDataMedian b i
      in \<lparr>month = monthNames ! i,
          current = meanOrNull vals2025,
          prev = meanOrNull vals2024,
          median = (if length valsMedian > 0 then Num (calculateMedian valsMedian) else Null)\<rparr>)"

definition monthStats :: "Buckets \<Rightarrow> SeasonalRow list" where
  "monthStats b = map (monthRow b) [0..<12]"

definition processedData :: "DataPoint list \<Rightarrow> SeasonalRow list" where
  "processedData data = (if length data = 0 then [] else monthStats (fillBuckets data))"

text \<open>
  The median in the words of the specification: of the values sorted ascending, the single
  middle element for an odd count, the average of the two middle elements for an even one.
\<close>

definition median_spec :: "rat list \<Rightarrow> rat" where
  "median_spec values =
     (let s = sort values; n = length s
      in if odd n then s ! ((n - 1) div 2)
         else (s ! (n div 2 - 1) + s ! (n div 2)) / 2)"

text \<open>A reading that some bucket receives: its date parses and its year is 2020 to 2025.\<close>

definition inComparedYears :: "DataPoint \<Rightarrow> bool" where
  "inComparedYears d =
     (case parseISO (date d) of
        None \<Rightarrow> False
      | Some dt \<Rightarrow> getYear dt = currentYear \<or> getYear dt = prevYear
          \<or> (medianStartYear \<le> getYear dt \<and> getYear dt \<le> medianEndYear))"

section \<open>Heatmap: monthly means\<close>

text \<open>
  \<^verbatim>\<open>matrix.map\<close> is a \<^verbatim>\<open>Map\<close> from the key \<^verbatim>\<open>`${year}-${month}`\<close> to an accumulator
  \<^verbatim>\<open>{sum, count}\<close>. The key string determines the pair (year, month index) and the pair
  the string, so the model uses the pair as the key.
\<close>

record Entry =
  sum' :: rat
  count' :: nat

type_synonym monthKey = "int \<times> nat"

text \<open>The body of \<^verbatim>\<open>data.forEach\<close>: a reading with an Invalid Date returns early.\<close>

definition addReading :: "(monthKey \<rightharpoonup> Entry) \<Rightarrow> DataPoint \<Rightarrow> (monthKey \<rightharpoonup> Entry)" where
  "addReading map' d =
     (case newDate (date d) of
        None \<Rightarrow> map'
      | Some dt \<Rightarrow>
          let year = getFullYear dt; month = getMonth dt; key = (year, month);
              entry = (case map' key of Some e \<Rightarrow> e | None \<Rightarrow> \<lparr>sum' = 0, count' = 0\<rparr>)
          in map'(key \<mapsto> \<lparr>sum' = sum' entry + val d, count' = count' entry + 1\<rparr>))"

definition matrix_map :: "DataPoint list \<Rightarrow> (monthKey \<rightharpoonup> Entry)" where
  "matrix_map data = foldl addReading Map.empty data"

text \<open>
  The cell of the rendered grid: \<^verbatim>\<open>avg = entry ? entry.sum / entry.count : null\<close>. An
  entry of the map has counted at least one reading; a zero count would make the
  JavaScript quotient \<open>NaN\<close> or infinite.
\<close>

definition avg :: "DataPoint list \<Rightarrow> int \<Rightarrow> nat \<Rightarrow> jsnum" where
  "avg data year monthIdx =
     (case matrix_map data (year, monthIdx) of
        Some entry \<Rightarrow> (if count' entry = 0 then NaN else Num (sum' entry / of_nat (count' entry)))
      | None \<Rightarrow> Null)"

text \<open>The values of the readings whose date parses and lies in the given year and month.\<close>

definition valuesIn :: "DataPoint list \<Rightarrow> int \<Rightarrow> nat \<Rightarrow> rat list" where
  "valuesIn data year monthIdx =
     map val (filter (\<lambda>d. case newDate (date d) of
                             None \<Rightarrow> False
                           | Some dt \<Rightarrow> getFullYear dt = year \<and> getMonth dt = monthIdx) data)"

section \<open>DailyHeatmap: the day grid of one year\<close>

text \<open>\<^verbatim>\<open>new Date(year, monthIndex, day)\<close>: a year from 0 to 99 means 1900 + year.\<close>

definition newDateYMD :: "int \<Rightarrow> nat \<Rightarrow> nat \<Rightarrow> jsdate" where
  "newDateYMD y m d = JSDate (if 0 \<le> y \<and> y \<le> 99 then 1900 + y else y) m d"

definition startOfYear :: "jsdate \<Rightarrow> jsdate" where
  "startOfYear d = JSDate (getFullYear d) 0 1"

definition endOfYear :: "jsdate \<Rightarrow> jsdate" where
  "endOfYear d = JSDate (getFullYear d) 11 31"

text \<open>
  \<^verbatim>\<open>eachDayOfInterval\<close> is only called from the first to the last day of one year, where
  it lists every day of every month of that year in calendar order.
\<close>

definition daysOfMonth :: "int \<Rightarrow> nat \<Rightarrow> jsdate list" where
  "daysOfMonth y m = map (\<lambda>d. JSDate y m d) [1..<getDaysInMonth y m + 1]"

definition eachDayOfYear :: "jsdate \<Rightarrow> jsdate \<Rightarrow> jsdate list" where
  "eachDayOfYear start end' = concat (map (daysOfMonth (getFullYear start)) [0..<12])"

record DayCell =
  cdate :: jsdate
  dateStr :: string
  cvalue :: jsnum

text \<open>\<^verbatim>\<open>dataMap\<close>: a later reading of the same date string replaces an earlier one.\<close>

definition dataMap :: "DataPoint list \<Rightarrow> (string \<rightharpoonup> rat)" where
  "dataMap data = foldl (\<lambda>m d. m(date d \<mapsto> val d)) Map.empty data"

text \<open>
  \<^verbatim>\<open>value: dataMap.get(dateStr) || null\<close>: \<open>undefined\<close> (no entry) and the falsy number 0
  both give \<open>null\<close>.
\<close>

definition dayCell :: "DataPoint list \<Rightarrow> jsdate \<Rightarrow> DayCell" where
  "dayCell data d =
     (let s = format_yyyy_MM_dd d
      in \<lparr>cdate = d, dateStr = s,
          cvalue = (case dataMap data s of
                      None \<Rightarrow> Null
                    | Some v \<Rightarrow> if v = 0 then Null else Num v)\<rparr>)"

definition padding :: "int \<Rightarrow> DayCell option list" where
  "padding year = replicate (getDay (startOfYear (newDateYMD year 0 1))) None"

definition calendarData :: "DataPoint list \<Rightarrow> int \<Rightarrow> DayCell option list" where
  "calendarData data year =
     (let startDate = startOfYear (newDateYMD year 0 1);
          endDate = endOfYear (newDateYMD year 0 1);
          allDays = eachDayOfYear startDate endDate;
          days = map (\<lambda>d. Some (dayCell data d)) allDays
      in padding year @ days)"

text \<open>The weekday index with Monday as 0 and Sunday as 6.\<close>

definition mondayIndex :: "jsdate \<Rightarrow> nat" where
  "mondayIndex d = (getDay d + 6) mod 7"

section \<open>HealthChart: weekly PM2.5 against weekly case counts\<close>

text \<open>
  \<^verbatim>\<open>HDCData\<close>: the group names of the metadata and, per province and year, the weekly
  counts of each disease group. The component exists in two versions, which share the
  weekly PM2.5 average and differ in how they read the case counts.
\<close>

record YearHDC =
  weeks :: "rat list"
  diseases :: "string \<rightharpoonup> rat list"

record HDCData =
  groups :: "string list"
  data' :: "string \<rightharpoonup> (int \<rightharpoonup> YearHDC)"

text \<open>
  \<^verbatim>\<open>weeklyPM25\<close> has an empty array under each key 1..53. The body of
  \<^verbatim>\<open>pm25Data.forEach\<close> compares the calendar year of the reading with the selected year
  (never true for an Invalid Date) and pushes the value to the bucket of the reading's
  ISO week, if there is a bucket under that key.
\<close>

definition pushWeekly :: "int \<Rightarrow> (nat \<Rightarrow> rat list) \<Rightarrow> DataPoint \<Rightarrow> (nat \<Rightarrow> rat list)" where
  "pushWeekly selectedYear weekly d =
     (case parseISO (date d) of
        None \<Rightarrow> weekly
      | Some dt \<Rightarrow>
          if getYear dt = selectedYear then
            (let week = getISOWeek dt
             in if 1 \<le> week \<and> week \<le> 53 then weekly(week := weekly week @ [val d]) else weekly)
          else weekly)"

definition weeklyPM25 :: "int \<Rightarrow> DataPoint list \<Rightarrow> (nat \<Rightarrow> rat list)" where
  "weeklyPM25 selectedYear pm25Data = foldl (pushWeekly selectedYear) (\<lambda>_. []) pm25Data"

definition avgPM25 :: "int \<Rightarrow> DataPoint list \<Rightarrow> nat \<Rightarrow> jsnum" where
  "avgPM25 selectedYear pm25Data weekNum = meanOrNull (weeklyPM25 selectedYear pm25Data weekNum)"

text \<open>The guard both versions start with: without it \<^verbatim>\<open>chartData\<close> is the empty array.\<close>

definition yearHDCOf ::
  "DataPoint list \<Rightarrow> string \<Rightarrow> HDCData option \<Rightarrow> int \<Rightarrow> (HDCData \<times> YearHDC) option" where
  "yearHDCOf pm25Data province hdcData selectedYear =
     (case hdcData of
        None \<Rightarrow> None
      | Some h \<Rightarrow>
          (case data' h province of
             None \<Rightarrow> None
           | Some years \<Rightarrow>
               (case years selectedYear of
                  None \<Rightarrow> None
                | Some yearHDC \<Rightarrow> if length pm25Data = 0 then None else Some (h, yearHDC))))"

subsection \<open>First version\<close>

record WeekRow =
  week :: nat
  pm25 :: jsnum
  cases :: jsnum

text \<open>
  \<^verbatim>\<open>caseCount = diseaseCounts ? diseaseCounts[i] : null\<close>, where \<^verbatim>\<open>diseaseCounts\<close> is the
  array stored under the selected name; an index past the end of the array reads
  \<open>undefined\<close>.
\<close>

definition caseCount :: "YearHDC \<Rightarrow> string \<Rightarrow> nat \<Rightarrow> jsnum" where
  "caseCount yearHDC selectedDisease i =
     (case diseases yearHDC selectedDisease of
        None \<Rightarrow> Null
      | Some diseaseCounts \<Rightarrow> if i < length diseaseCounts then Num (diseaseCounts ! i) else Undefined)"

definition weekRow :: "DataPoint list \<Rightarrow> YearHDC \<Rightarrow> string \<Rightarrow> int \<Rightarrow> nat \<Rightarrow> WeekRow list" where
  "weekRow pm25Data yearHDC selectedDisease selectedYear i =
     (let weekNum = i + 1;
          a = avgPM25 selectedYear pm25Data weekNum;
          c = caseCount yearHDC selectedDisease i
      in if a \<noteq> Null \<or> c \<noteq> Null then [\<lparr>week = weekNum, pm25 = a, cases = c\<rparr>] else [])"

definition chartData :: "DataPoint list \<Rightarrow> string \<Rightarrow> HDCData option \<Rightarrow> string \<Rightarrow> int \<Rightarrow> WeekRow list" where
  "chartData pm25Data province hdcData selectedDisease selectedYear =
     (case yearHDCOf pm25Data province hdcData selectedYear of
        None \<Rightarrow> []
      | Some (h, yearHDC) \<Rightarrow>
          concat (map (weekRow pm25Data yearHDC selectedDisease selectedYear) [0..<53]))"

subsection \<open>Second version\<close>

type_synonym jsobject = "string \<rightharpoonup> jsnum"

record GroupAcc =
  groupCounts :: "string \<rightharpoonup> rat"
  totalCases :: rat
  hasHealthData :: bool

text \<open>The body of \<^verbatim>\<open>groups.forEach\<close> for week index \<open>i\<close>.\<close>

definition addGroup :: "YearHDC \<Rightarrow> nat \<Rightarrow> GroupAcc \<Rightarrow> string \<Rightarrow> GroupAcc" where
  "addGroup yearHDC i acc g =
     (case diseases yearHDC g of
        None \<Rightarrow> acc
      | Some counts \<Rightarrow>
          if i < length counts
          then \<lparr>groupCounts = (groupCounts acc)(g \<mapsto> counts ! i),
                totalCases = totalCases acc + counts ! i,
                hasHealthData = True\<rparr>
          else acc)"

definition groupAcc :: "string list \<Rightarrow> YearHDC \<Rightarrow> nat \<Rightarrow> GroupAcc" where
  "groupAcc gs yearHDC i =
     foldl (addGroup yearHDC i) \<lparr>groupCounts = Map.empty, totalCases = 0, hasHealthData = False\<rparr> gs"

text \<open>
  The row pushed for a week is an object: the keys \<^verbatim>\<open>week\<close>, \<^verbatim>\<open>pm25\<close> and
  \<^verbatim>\<open>cases\<close>, then the spread of \<^verbatim>\<open>groupCounts\<close>, one key per group that has a count
  for the week (a spread key replaces an earlier key of the same name).
\<close>

definition row2 :: "nat \<Rightarrow> jsnum \<Rightarrow> GroupAcc \<Rightarrow> string \<Rightarrow> jsobject" where
  "row2 weekNum a acc selectedDisease =
     [''week'' \<mapsto> Num (of_nat weekNum),
      ''pm25'' \<mapsto> a,
      ''cases'' \<mapsto> (if selectedDisease = ''Total'' then Num (totalCases acc)
                     else (case groupCounts acc selectedDisease of
                             Some c \<Rightarrow> Num c | None \<Rightarrow> Undefined))]
     ++ (\<lambda>g. map_option Num (groupCounts acc g))"

definition weekRow2 ::
  "DataPoint list \<Rightarrow> string list \<Rightarrow> YearHDC \<Rightarrow> string \<Rightarrow> int \<Rightarrow> nat \<Rightarrow> jsobject list" where
  "weekRow2 pm25Data gs yearHDC selectedDisease selectedYear i =
     (let weekNum = i + 1;
          a = avgPM25 selectedYear pm25Data weekNum;
          acc = groupAcc gs yearHDC i
      in if a \<noteq> Null \<or> hasHealthData acc then [row2 weekNum a acc selectedDisease] else [])"

definition chartData2 :: "DataPoint list \<Rightarrow> string \<Rightarrow> HDCData option \<Rightarrow> string \<Rightarrow> int \<Rightarrow> jsobject list" where
  "chartData2 pm25Data province hdcData selectedDisease selectedYear =
     (case yearHDCOf pm25Data province hdcData selectedYear of
        None \<Rightarrow> []
      | Some (h, yearHDC) \<Rightarrow>
          concat (map (weekRow2 pm25Data (groups h) yearHDC selectedDisease selectedYear) [0..<53]))"

text \<open>
  The count of a named group for week index \<open>i\<close>, if the year has one, and the sum of
  these counts over the listed groups.
\<close>

definition groupCount :: "YearHDC \<Rightarrow> nat \<Rightarrow> string \<Rightarrow> rat option" where
  "groupCount yearHDC i g =
     (case diseases yearHDC g of
        None \<Rightarrow> None
      | Some counts \<Rightarrow> if i < length counts then Some (counts ! i) else None)"

definition sumOfGroups :: "string list \<Rightarrow> YearHDC \<Rightarrow> nat \<Rightarrow> rat" where
  "sumOfGroups gs yearHDC i =
     sum_list (map (\<lambda>g. case groupCount yearHDC i g of Some c \<Rightarrow> c | None \<Rightarrow> 0) gs)"

section \<open>TrendChart: the moving average\<close>

record ChartPoint = DataPoint +
  ma :: jsnum

text \<open>
  The comparator of the sort subtracts the timestamps of the two dates. With an Invalid
  Date the difference is \<open>NaN\<close>, the comparator is not a consistent ordering and the
  language leaves the resulting order to the implementation: the model has no result
  (\<open>None\<close>) there. Otherwise \<^verbatim>\<open>Array.prototype.sort\<close> is a stable sort by timestamp.
\<close>

definition timestamps :: "DataPoint list \<Rightarrow> int list option" where
  "timestamps data = those (map (\<lambda>p. map_option getTime (newDate (date p))) data)"

definition sortByDate :: "DataPoint list \<Rightarrow> DataPoint list option" where
  "sortByDate data =
     (case timestamps data of
        None \<Rightarrow> None
      | Some ts \<Rightarrow> Some (map snd (sort_key fst (zip ts data))))"

text \<open>
  The callback of \<^verbatim>\<open>sorted.map\<close>. The inner loop adds \<^verbatim>\<open>array[index - i].value\<close> for
  \<open>i\<close> from 0 to \<open>windowSize - 1\<close>; a window of size 0 would divide 0 by 0.
\<close>

definition movingAverage :: "nat \<Rightarrow> DataPoint list \<Rightarrow> nat \<Rightarrow> jsnum" where
  "movingAverage windowSize array index =
     (if int index \<ge> int windowSize - 1 then
        (let sum = foldl (\<lambda>sum i. sum + val (array ! (index - i))) 0 [0..<windowSize]
         in if windowSize = 0 then NaN else Num (sum / of_nat windowSize))
      else Null)"

definition trendPoint :: "nat \<Rightarrow> DataPoint list \<Rightarrow> nat \<Rightarrow> ChartPoint" where
  "trendPoint windowSize array index =
     \<lparr>date = date (array ! index), val = val (array ! index),
      ma = movingAverage windowSize array index\<rparr>"

definition trendData :: "nat \<Rightarrow> DataPoint list \<Rightarrow> ChartPoint list option" where
  "trendData windowSize data =
     (if length data = 0 then Some []
      else (case sortByDate data of
              None \<Rightarrow> None
            | Some sorted' \<Rightarrow> Some (map (trendPoint windowSize sorted') [0..<length sorted'])))"

text \<open>The mean of the \<open>W\<close> values at the index positions \<open>i - W + 1\<close> to \<open>i\<close>.\<close>

definition windowMean :: "nat \<Rightarrow> DataPoint list \<Rightarrow> nat \<Rightarrow> rat" where
  "windowMean W xs i = (\<Sum>k = i + 1 - W..i. val (xs ! k)) / of_nat W"

section \<open>Notions used in the properties\<close>

text \<open>A reading of the given year and month index: its date parses and lies there.\<close>

definition inMonth :: "int \<Rightarrow> nat \<Rightarrow> DataPoint \<Rightarrow> bool" where
  "inMonth year monthIdx d =
     (case newDate (date d) of
        None \<Rightarrow> False
      | Some dt \<Rightarrow> getFullYear dt = year \<and> getMonth dt = monthIdx)"

text \<open>The timestamp of a reading whose date parses.\<close>

definition timeOf :: "DataPoint \<Rightarrow> int" where
  "timeOf p = (case newDate (date p) of Some d \<Rightarrow> getTime d | None \<Rightarrow> 0)"

text \<open>
  A reading that the weekly table of the selected year puts into the bucket of week \<open>w\<close>.
\<close>

definition inWeek :: "int \<Rightarrow> nat \<Rightarrow> DataPoint \<Rightarrow> bool" where
  "inWeek selectedYear w d =
     (case parseISO (date d) of
        None \<Rightarrow> False
      | Some dt \<Rightarrow> getYear dt = selectedYear \<and> getISOWeek dt = w \<and> 1 \<le> w \<and> w \<le> 53)"

text \<open>
  Example inputs: a health dataset with two groups and a stored total of 100 per week for
  one province and year, a PM2.5 series with one reading in week 2 of 2025, and a PM2.5
  series with a reading on Monday 2024-12-30, the first day of ISO week 1 of 2025.
\<close>

definition exampleYear :: YearHDC where
  "exampleYear = \<lparr>weeks = [], diseases = [''Respiratory'' \<mapsto> replicate 53 3, ''Skin'' \<mapsto> replicate 53 1,
       ''Total'' \<mapsto> replicate 53 100]\<rparr>"

definition exampleHDC :: HDCData where
  "exampleHDC = \<lparr>groups = [''Respiratory'', ''Skin''], data' = [''Chonburi'' \<mapsto> [2025 \<mapsto> exampleYear]]\<rparr>"

definition examplePM25 :: "DataPoint list" where
  "examplePM25 = [\<lparr>date = ''2025-01-08'', val = 10\<rparr>]"

definition boundaryPM25 :: "DataPoint list" where
  "boundaryPM25 = [\<lparr>date = ''2024-01-03'', val = 10\<rparr>, \<lparr>date = ''2024-12-30'', val = 50\<rparr>]"

text \<open>
  The partition of a series for a month index and a set of years: the values of the
  readings whose date parses and lies in that month of one of these years.
\<close>

definition monthPartition :: "(int \<Rightarrow> bool) \<Rightarrow> nat \<Rightarrow> DataPoint list \<Rightarrow> rat list" where
  "monthPartition years m data =
     map val (filter (\<lambda>d. case parseISO (date d) of
                             None \<Rightarrow> False
                           | Some dt \<Rightarrow> years (getYear dt) \<and> getMonth dt = m) data)"

section \<open>Properties of the seasonal comparison table\<close>

lemma length_monthStats: "length (monthStats b) = 12"
  by (simp add: monthStats_def)

lemma monthStats_nth: "i < 12 \<Longrightarrow> monthStats b ! i = monthRow b i"
  unfolding monthStats_def by (simp only: nth_map_upt) simp

lemma month_monthRow: "month (monthRow b i) = monthNames ! i"
  by (simp add: monthRow_def Let_def)

lemma median_monthRow:
  "median (monthRow b i) =
     (if monthlyDataMedian b i = [] then Null else Num (calculateMedian (monthlyDataMedian b i)))"
  by (simp add: monthRow_def Let_def)

lemma current_monthRow: "current (monthRow b i) = meanOrNull (monthlyData2025 b i)"
  by (simp add: monthRow_def Let_def)

lemma prev_monthRow: "prev (monthRow b i) = meanOrNull (monthlyData2024 b i)"
  by (simp add: monthRow_def Let_def)

lemma month_monthStats: "map month (monthStats b) = monthNames"
proof -
  have "length monthNames = 12" by (simp add: monthNames_def)
  then have "map (\<lambda>i. monthNames ! i) [0..<12] = monthNames"
    by (metis map_nth)
  then show ?thesis by (simp add: monthStats_def month_monthRow comp_def)
qed

lemma pushReading_outside: "\<not> inComparedYears d \<Longrightarrow> pushReading b d = b"
  by (auto simp: inComparedYears_def pushReading_def Let_def split: option.splits)

lemma foldl_pushReading_outside:
  "\<forall>d\<in>set data. \<not> inComparedYears d \<Longrightarrow> foldl pushReading b data = b"
  by (induction data arbitrary: b) (simp_all add: pushReading_outside)

text \<open>
  C1 (as amended). The table of a non-empty series has exactly 12 rows, named Jan to Dec
  in this order, whatever the data; when no reading of the series falls in the compared
  years (2020 to 2025), the three statistics of every row are null. The table of the
  empty series has no rows.
\<close>

theorem processedData_rows:
  "processedData [] = [] \<and>
   (data \<noteq> [] \<longrightarrow>
      length (processedData data) = 12 \<and> map month (processedData data) = monthNames) \<and>
   (data \<noteq> [] \<and> (\<forall>d\<in>set data. \<not> inComparedYears d) \<longrightarrow>
      (\<forall>r\<in>set (processedData data). current r = Null \<and> prev r = Null \<and> median r = Null))"
proof -
  have a: "processedData [] = []" by (simp add: processedData_def)
  have b: "data \<noteq> [] \<longrightarrow>
      length (processedData data) = 12 \<and> map month (processedData data) = monthNames"
    by (simp add: processedData_def length_monthStats month_monthStats)
  have c: "data \<noteq> [] \<and> (\<forall>d\<in>set data. \<not> inComparedYears d) \<longrightarrow>
      (\<forall>r\<in>set (processedData data). current r = Null \<and> prev r = Null \<and> median r = Null)"
    by (auto simp: processedData_def fillBuckets_def foldl_pushReading_outside monthStats_def
        median_monthRow current_monthRow prev_monthRow emptyBuckets_def meanOrNull_def)
  from a b c show ?thesis by blast
qed

theorem processedData_rows_witness:
  "\<not> inComparedYears \<lparr>date = ''2019-05-05'', val = 10\<rparr> \<and>
   length (processedData [\<lparr>date = ''2019-05-05'', val = 10\<rparr>]) = 12 \<and>
   map month (processedData [\<lparr>date = ''2019-05-05'', val = 10\<rparr>]) = monthNames \<and>
   list_all (\<lambda>r. current r = Null \<and> prev r = Null \<and> median r = Null)
     (processedData [\<lparr>date = ''2019-05-05'', val = 10\<rparr>])"
proof -
  let ?d = "[\<lparr>date = ''2019-05-05'', val = 10\<rparr>]"
  have o: "\<not> inComparedYears \<lparr>date = ''2019-05-05'', val = 10\<rparr>"
    by (simp add: inComparedYears_def parseISO_def parseYMD_def digitOf_def getDaysInMonth_def
        currentYear_def prevYear_def medianStartYear_def medianEndYear_def)
  have n: "?d \<noteq> []" by simp
  from o have o': "\<forall>d\<in>set ?d. \<not> inComparedYears d" by simp
  from processedData_rows [of ?d] n o' o show ?thesis
    unfolding list_all_iff by blast
qed

text \<open>
  C1 as stated fails on the empty series: the function returns at its first line with an
  empty table, not with 12 rows of nulls.
\<close>

theorem processedData_empty_counterexample:
  "length (processedData []) \<noteq> 12"
  by (simp add: processedData_def)

lemma odd_middle: "odd (n::nat) \<Longrightarrow> (n - Suc 0) div 2 = n div 2"
  by presburger

lemma median_spec_eq:
  assumes "values \<noteq> []"
  shows "calculateMedian values = median_spec values"
proof (cases "odd (length values)")
  case True
  then have "length values mod 2 \<noteq> 0" by presburger
  with assms True show ?thesis
    by (simp add: calculateMedian_def median_spec_def Let_def odd_middle)
next
  case False
  then have "length values mod 2 = 0" by presburger
  with assms False show ?thesis
    by (simp add: calculateMedian_def median_spec_def Let_def)
qed

lemma monthPartition_Nil: "monthPartition years m [] = []"
  by (simp add: monthPartition_def)

lemma monthPartition_snoc:
  "monthPartition years m (data @ [d]) =
     (case parseISO (date d) of
        None \<Rightarrow> monthPartition years m data
      | Some dt \<Rightarrow> if years (getYear dt) \<and> getMonth dt = m
                   then monthPartition years m data @ [val d] else monthPartition years m data)"
  by (simp add: monthPartition_def split: option.splits)

lemma fillBuckets_snoc: "fillBuckets (data @ [d]) = pushReading (fillBuckets data) d"
  by (simp add: fillBuckets_def)

lemma fillBuckets_partition:
  "monthlyData2025 (fillBuckets data) m = monthPartition (\<lambda>y. y = currentYear) m data \<and>
   monthlyData2024 (fillBuckets data) m = monthPartition (\<lambda>y. y = prevYear) m data \<and>
   monthlyDataMedian (fillBuckets data) m
     = monthPartition (\<lambda>y. medianStartYear \<le> y \<and> y \<le> medianEndYear) m data"
proof (induction data rule: rev_induct)
  case Nil
  then show ?case by (simp add: fillBuckets_def emptyBuckets_def monthPartition_Nil)
next
  case (snoc d data)
  then show ?case
    unfolding fillBuckets_snoc monthPartition_snoc
    by (cases "parseISO (date d)") (simp_all add: pushReading_def Let_def)
qed

text \<open>
  C7 (as amended). On a non-empty list \<open>calculateMedian\<close> is the median of the
  specification (sort ascending; the middle element for an odd count, the average of the
  two middle elements for an even count); the median of 10, 20, 30, 40 is 25 and that of
  10, 20, 30 is 20. In the table of a non-empty series, which always has its 12 rows, the
  row of a month carries the median of the month's partition of the years 2020 to 2024,
  and null when that partition is empty; likewise the means of the partitions of 2025 and
  of 2024 are null when the partition is empty. The table of the empty series has no rows.
\<close>

theorem calculateMedian_correct:
  "(values \<noteq> [] \<longrightarrow> calculateMedian values = median_spec values) \<and>
   calculateMedian [10, 20, 30, 40] = 25 \<and> calculateMedian [10, 20, 30] = 20 \<and>
   (data \<noteq> [] \<and> i < 12 \<longrightarrow>
      length (processedData data) = 12 \<and>
      median (processedData data ! i) =
        (if monthPartition (\<lambda>y. medianStartYear \<le> y \<and> y \<le> medianEndYear) i data = [] then Null
         else Num (median_spec (monthPartition (\<lambda>y. medianStartYear \<le> y \<and> y \<le> medianEndYear) i data))) \<and>
      current (processedData data ! i) = meanOrNull (monthPartition (\<lambda>y. y = currentYear) i data) \<and>
      prev (processedData data ! i) = meanOrNull (monthPartition (\<lambda>y. y = prevYear) i data) \<and>
      meanOrNull [] = Null) \<and>
   processedData [] = []"
proof -
  have 0: "processedData [] = []" by (simp add: processedData_def)
  have 1: "calculateMedian [10, 20, 30, 40] = 25" by (simp add: calculateMedian_def)
  have 2: "calculateMedian [10, 20, 30] = 20" by (simp add: calculateMedian_def)
  have 3: "length (processedData data) = 12 \<and>
      median (processedData data ! i) =
        (if monthPartition (\<lambda>y. medianStartYear \<le> y \<and> y \<le> medianEndYear) i data = [] then Null
         else Num (median_spec (monthPartition (\<lambda>y. medianStartYear \<le> y \<and> y \<le> medianEndYear) i data))) \<and>
      current (processedData data ! i) = meanOrNull (monthPartition (\<lambda>y. y = currentYear) i data) \<and>
      prev (processedData data ! i) = meanOrNull (monthPartition (\<lambda>y. y = prevYear) i data) \<and>
      meanOrNull [] = Null"
    if "data \<noteq> []" "i < 12"
    using that
    by (simp add: processedData_def length_monthStats monthStats_nth median_monthRow
        current_monthRow prev_monthRow fillBuckets_partition median_spec_eq meanOrNull_def)
  from 0 1 2 3 median_spec_eq show ?thesis by blast
qed

theorem calculateMedian_correct_witness:
  "median_spec [30, 10, 20] = 20 \<and>
   length (processedData [\<lparr>date = ''2022-03-05'', val = 7\<rparr>, \<lparr>date = ''2021-03-09'', val = 9\<rparr>]) = 12 \<and>
   median (processedData [\<lparr>date = ''2022-03-05'', val = 7\<rparr>, \<lparr>date = ''2021-03-09'', val = 9\<rparr>] ! 0) = Null \<and>
   current (processedData [\<lparr>date = ''2022-03-05'', val = 7\<rparr>, \<lparr>date = ''2021-03-09'', val = 9\<rparr>] ! 2) = Null \<and>
   median (processedData [\<lparr>date = ''2022-03-05'', val = 7\<rparr>, \<lparr>date = ''2021-03-09'', val = 9\<rparr>] ! 2) = Num 8"
proof -
  let ?d = "[\<lparr>date = ''2022-03-05'', val = 7\<rparr>, \<lparr>date = ''2021-03-09'', val = 9\<rparr>]"
  have p: "parseISO ''2022-03-05'' = Some (JSDate 2022 2 5)" "parseISO ''2021-03-09'' = Some (JSDate 2021 2 9)"
    by (simp_all add: parseISO_def parseYMD_def digitOf_def getDaysInMonth_def)
  have m0: "monthPartition (\<lambda>y. medianStartYear \<le> y \<and> y \<le> medianEndYear) 0 ?d = []"
    and m2: "monthPartition (\<lambda>y. medianStartYear \<le> y \<and> y \<le> medianEndYear) 2 ?d = [7, 9]"
    and c2: "monthPartition (\<lambda>y. y = currentYear) 2 ?d = []"
    by (simp_all add: monthPartition_def p currentYear_def medianStartYear_def medianEndYear_def)
  have s: "median_spec [7, 9] = 8" by (simp add: median_spec_def)
  have c: "calculateMedian [30, 10, 20] = 20" by (simp add: calculateMedian_def)
  have n: "?d \<noteq> []" "[30, 10, 20] \<noteq> ([] :: rat list)" by simp_all
  have i: "(0::nat) < 12" "(2::nat) < 12" by simp_all
  from calculateMedian_correct [of "[30, 10, 20]" ?d 0] n i(1) m0 c
  have a: "median_spec [30, 10, 20] = 20" "length (processedData ?d) = 12"
    "median (processedData ?d ! 0) = Null"
    by simp_all
  from calculateMedian_correct [of "[30, 10, 20]" ?d 2] n i(2) m2 c2 s
  have b: "current (processedData ?d ! 2) = Null" "median (processedData ?d ! 2) = Num 8"
    by simp_all
  from a b show ?thesis by simp
qed

text \<open>
  C7 as stated fails on the empty series: every month partition is empty, and the rows
  are omitted, because the function returns the empty table at its first line.
\<close>

theorem empty_series_rows_omitted_counterexample:
  "monthlyDataMedian (fillBuckets []) 0 = [] \<and> monthlyData2025 (fillBuckets []) 0 = [] \<and>
   monthlyData2024 (fillBuckets []) 0 = [] \<and> processedData [] = []"
  by (simp add: fillBuckets_def emptyBuckets_def processedData_def)

section \<open>Properties of the monthly means\<close>

lemma valuesIn_Cons:
  "valuesIn (d # data) y m = (if inMonth y m d then val d # valuesIn data y m else valuesIn data y m)"
  by (simp add: valuesIn_def inMonth_def)

lemma addReading_in:
  "inMonth y m d \<Longrightarrow>
   addReading mp d (y, m) =
     Some (case mp (y, m) of
             None \<Rightarrow> \<lparr>sum' = val d, count' = 1\<rparr>
           | Some e \<Rightarrow> \<lparr>sum' = sum' e + val d, count' = count' e + 1\<rparr>)"
  by (auto simp: inMonth_def addReading_def Let_def split: option.splits)

lemma addReading_out: "\<not> inMonth y m d \<Longrightarrow> addReading mp d (y, m) = mp (y, m)"
  by (auto simp: inMonth_def addReading_def Let_def split: option.splits)

lemma foldl_addReading:
  "foldl addReading mp data (y, m) =
     (if valuesIn data y m = [] then mp (y, m)
      else Some (case mp (y, m) of
                   None \<Rightarrow> \<lparr>sum' = sum_list (valuesIn data y m), count' = length (valuesIn data y m)\<rparr>
                 | Some e \<Rightarrow> \<lparr>sum' = sum' e + sum_list (valuesIn data y m),
                               count' = count' e + length (valuesIn data y m)\<rparr>))"
proof (induction data arbitrary: mp)
  case Nil
  then show ?case by (simp add: valuesIn_def)
next
  case (Cons d data)
  show ?case
  proof (cases "inMonth y m d")
    case True
    then show ?thesis
      by (simp add: Cons.IH valuesIn_Cons addReading_in split: option.splits)
  next
    case False
    then have v: "valuesIn (d # data) y m = valuesIn data y m"
      by (simp add: valuesIn_Cons)
    show ?thesis
      unfolding v by (simp add: Cons.IH addReading_out False)
  qed
qed

text \<open>
  C6. The cell of a year and a 0-based month is the sum of the values of exactly the
  readings whose date parses and lies in that year and month, divided by their number,
  as an exact quotient (nothing is rounded); it is null when there is no such reading.
\<close>

theorem avg_is_mean:
  "avg data year monthIdx =
     (if valuesIn data year monthIdx = [] then Null
      else Num (sum_list (valuesIn data year monthIdx) / of_nat (length (valuesIn data year monthIdx))))"
  by (simp add: avg_def matrix_map_def foldl_addReading)


theorem avg_is_mean_witness:
  "avg [\<lparr>date = ''2025-01-05'', val = 10\<rparr>, \<lparr>date = ''2025-13-01'', val = 99\<rparr>,
        \<lparr>date = ''2025-01-20'', val = 20\<rparr>, \<lparr>date = ''2024-01-20'', val = 7\<rparr>] 2025 0 = Num 15 \<and>
   avg [\<lparr>date = ''2025-01-05'', val = 10\<rparr>, \<lparr>date = ''2025-13-01'', val = 99\<rparr>,
        \<lparr>date = ''2025-01-20'', val = 20\<rparr>, \<lparr>date = ''2024-01-20'', val = 7\<rparr>] 2025 1 = Null"
proof -
  let ?d = "[\<lparr>date = ''2025-01-05'', val = 10\<rparr>, \<lparr>date = ''2025-13-01'', val = 99\<rparr>,
        \<lparr>date = ''2025-01-20'', val = 20\<rparr>, \<lparr>date = ''2024-01-20'', val = 7\<rparr>]"
  have v0: "valuesIn ?d 2025 0 = [10, 20]"
    by (simp add: valuesIn_def newDate_def parseYMD_def digitOf_def getDaysInMonth_def)
  have v1: "valuesIn ?d 2025 1 = []"
    by (simp add: valuesIn_def newDate_def parseYMD_def digitOf_def getDaysInMonth_def)
  from avg_is_mean [of ?d 2025 0] v0 have a: "avg ?d 2025 0 = Num 15" by simp
  from avg_is_mean [of ?d 2025 1] v1 have b: "avg ?d 2025 1 = Null" by simp
  from a b show ?thesis by simp
qed

section \<open>Properties of the day grid\<close>

lemma eachDayOfYear_first:
  "\<exists>rest. eachDayOfYear (JSDate y 0 1) e = JSDate y 0 1 # rest"
proof -
  have a: "[0..<12] = 0 # [1..<12]" by (simp add: upt_conv_Cons)
  have b: "daysOfMonth y 0 = JSDate y 0 1 # map (\<lambda>d. JSDate y 0 d) [2..<32]"
    by (simp add: daysOfMonth_def getDaysInMonth_def upt_conv_Cons)
  show ?thesis unfolding eachDayOfYear_def a by (simp add: b)
qed

lemma calendarData_split:
  "calendarData data year =
     padding year @ map (\<lambda>d. Some (dayCell data d))
       (eachDayOfYear (startOfYear (newDateYMD year 0 1)) (endOfYear (newDateYMD year 0 1)))"
  by (simp add: calendarData_def Let_def)

lemma calendarData_first:
  "\<exists>rest. calendarData data year =
     padding year @ Some (dayCell data (startOfYear (newDateYMD year 0 1))) # rest"
proof -
  have s: "startOfYear (newDateYMD year 0 1) = JSDate (getFullYear (newDateYMD year 0 1)) 0 1"
    by (simp add: startOfYear_def)
  obtain rest where "eachDayOfYear (startOfYear (newDateYMD year 0 1)) (endOfYear (newDateYMD year 0 1))
      = startOfYear (newDateYMD year 0 1) # rest"
    unfolding s using eachDayOfYear_first by blast
  then show ?thesis by (simp add: calendarData_split)
qed

lemma length_padding: "length (padding year) = getDay (startOfYear (newDateYMD year 0 1))"
  by (simp add: padding_def)

lemma leading_empty_cells:
  "takeWhile (\<lambda>c. c = None) (calendarData data year) = padding year"
proof -
  obtain rest where r: "calendarData data year =
     padding year @ Some (dayCell data (startOfYear (newDateYMD year 0 1))) # rest"
    using calendarData_first by blast
  have "\<forall>c\<in>set (padding year). c = None" by (simp add: padding_def)
  then show ?thesis unfolding r by (simp add: takeWhile_append2)
qed

lemma getDay_less: "getDay d < 7"
  by (simp add: getDay_def weekdayOfDay_def)

lemma getDay_mondayIndex: "getDay d = (mondayIndex d + 1) mod 7"
  using getDay_less [of d] unfolding mondayIndex_def by presburger

text \<open>
  C8 (as amended). For every requested year, the number of leading empty cells of the day
  grid is the weekday index of January 1 in the convention of \<^verbatim>\<open>getDay\<close>, where Sunday
  is 0, Monday is 1 and Saturday is 6: one more, modulo 7, than the index that counts
  Monday as 0. The cell after the padding is that of January 1. The year of the grid is
  the requested year, except for a year from 0 to 99, which the \<^verbatim>\<open>Date\<close> constructor
  reads as 1900 + year.
\<close>

theorem padding_is_sunday_index:
  "length (takeWhile (\<lambda>c. c = None) (calendarData data year))
      = getDay (startOfYear (newDateYMD year 0 1)) \<and>
   calendarData data year ! getDay (startOfYear (newDateYMD year 0 1))
      = Some (dayCell data (startOfYear (newDateYMD year 0 1))) \<and>
   getDay (startOfYear (newDateYMD year 0 1))
      = (mondayIndex (startOfYear (newDateYMD year 0 1)) + 1) mod 7 \<and>
   (year < 0 \<or> 100 \<le> year \<longrightarrow> startOfYear (newDateYMD year 0 1) = JSDate year 0 1)"
proof -
  obtain rest where r: "calendarData data year =
     padding year @ Some (dayCell data (startOfYear (newDateYMD year 0 1))) # rest"
    using calendarData_first by blast
  have 1: "length (takeWhile (\<lambda>c. c = None) (calendarData data year))
      = getDay (startOfYear (newDateYMD year 0 1))"
    by (simp add: leading_empty_cells length_padding)
  have 2: "calendarData data year ! getDay (startOfYear (newDateYMD year 0 1))
      = Some (dayCell data (startOfYear (newDateYMD year 0 1)))"
    unfolding r by (simp add: nth_append length_padding)
  have 3: "year < 0 \<or> 100 \<le> year \<longrightarrow> startOfYear (newDateYMD year 0 1) = JSDate year 0 1"
    by (auto simp: startOfYear_def newDateYMD_def)
  from 1 2 3 getDay_mondayIndex show ?thesis by blast
qed

lemma jan1_2025: "startOfYear (newDateYMD 2025 0 1) = JSDate 2025 0 1"
  by (simp add: startOfYear_def newDateYMD_def)

lemma getDay_2025: "getDay (JSDate 2025 0 1) = 3"
  by (simp add: getDay_def weekdayOfDay_def daysSinceEpoch_def daysBeforeYear_def daysBeforeMonth_def)

theorem padding_is_sunday_index_witness:
  "length (takeWhile (\<lambda>c. c = None) (calendarData [] 2025)) = 3 \<and>
   calendarData [] 2025 ! 3 = Some \<lparr>cdate = JSDate 2025 0 1, dateStr = ''2025-01-01'', cvalue = Null\<rparr>"
proof -
  have c: "dayCell [] (JSDate 2025 0 1) = \<lparr>cdate = JSDate 2025 0 1, dateStr = ''2025-01-01'', cvalue = Null\<rparr>"
    by (simp add: dayCell_def dataMap_def format_yyyy_MM_dd_def addLeadingZeros_def decimal.simps digitChar_def)
  from padding_is_sunday_index [of "[]" 2025] show ?thesis
    unfolding jan1_2025 getDay_2025 c by simp
qed

text \<open>
  C8 as stated fails for 2025, whose January 1 is a Wednesday: the grid has 3 leading empty
  cells, and the index of Wednesday with Monday as 0 is 2.
\<close>

theorem padding_monday_counterexample:
  "take 3 (calendarData [] 2025) = [None, None, None] \<and>
   calendarData [] 2025 ! 3
     = Some \<lparr>cdate = JSDate 2025 0 1, dateStr = ''2025-01-01'', cvalue = Null\<rparr> \<and>
   mondayIndex (JSDate 2025 0 1) = 2"
proof -
  obtain rest where r: "calendarData [] 2025 =
     padding 2025 @ Some (dayCell [] (startOfYear (newDateYMD 2025 0 1))) # rest"
    using calendarData_first by blast
  have p: "padding 2025 = [None, None, None]"
    unfolding padding_def jan1_2025 getDay_2025 by (simp add: numeral_3_eq_3)
  have c: "dayCell [] (JSDate 2025 0 1)
      = \<lparr>cdate = JSDate 2025 0 1, dateStr = ''2025-01-01'', cvalue = Null\<rparr>"
    by (simp add: dayCell_def dataMap_def format_yyyy_MM_dd_def addLeadingZeros_def
        decimal.simps digitChar_def)
  have m: "mondayIndex (JSDate 2025 0 1) = 2"
    unfolding mondayIndex_def getDay_2025 by simp
  show ?thesis unfolding r p jan1_2025 c using m by simp
qed

lemma foldl_dataMap:
  "foldl (\<lambda>m d. m(date d \<mapsto> val d)) m0 data s =
     (if filter (\<lambda>d. date d = s) data = [] then m0 s
      else Some (val (last (filter (\<lambda>d. date d = s) data))))"
  by (induction data arbitrary: m0) auto

lemma dataMap_last:
  "dataMap data s =
     (if filter (\<lambda>d. date d = s) data = [] then None
      else Some (val (last (filter (\<lambda>d. date d = s) data))))"
  by (simp add: dataMap_def foldl_dataMap)

lemma cells_of_frame:
  "Some cell \<in> set (calendarData data year) \<longleftrightarrow>
   (\<exists>day\<in>set (eachDayOfYear (startOfYear (newDateYMD year 0 1)) (endOfYear (newDateYMD year 0 1))).
      cell = dayCell data day)"
  by (auto simp: calendarData_split padding_def)

lemma dateStr_dayCell: "dateStr (dayCell data day) = format_yyyy_MM_dd day"
  by (simp add: dayCell_def Let_def)

lemma cvalue_dayCell:
  "cvalue (dayCell data day) =
     (case dataMap data (format_yyyy_MM_dd day) of None \<Rightarrow> Null
      | Some v \<Rightarrow> if v = 0 then Null else Num v)"
  by (simp add: dayCell_def Let_def)

lemma dayCell_eq:
  "dayCell data day = \<lparr>cdate = day, dateStr = format_yyyy_MM_dd day, cvalue = cvalue (dayCell data day)\<rparr>"
  by (simp add: dayCell_def Let_def)

text \<open>
  C10. In the day frame of a year, a cell whose date string is that of a reading of value
  exactly 0 (the last reading of that date, which is the one the lookup table keeps) has
  the value null, and the frame built from the series without the readings of that date
  has the very same cell: a recorded 0 cannot be told from a day without data.
\<close>

theorem zero_reading_is_null:
  assumes cell: "Some cell \<in> set (calendarData data year)"
    and d: "d \<in> set data" "date d = dateStr cell" "val d = 0"
    and lst: "last (filter (\<lambda>d'. date d' = date d) data) = d"
  shows "cvalue cell = Null \<and>
         Some cell \<in> set (calendarData (filter (\<lambda>d'. date d' \<noteq> date d) data) year)"
proof -
  let ?data' = "filter (\<lambda>d'. date d' \<noteq> date d) data"
  from cell obtain day
    where day: "day \<in> set (eachDayOfYear (startOfYear (newDateYMD year 0 1)) (endOfYear (newDateYMD year 0 1)))"
      and c: "cell = dayCell data day"
    unfolding cells_of_frame by blast
  have s: "format_yyyy_MM_dd day = date d"
    using d(2) c by (simp add: dateStr_dayCell)
  from d(1) have ne: "filter (\<lambda>d'. date d' = date d) data \<noteq> []"
    by (auto simp: filter_empty_conv)
  have "dataMap data (date d) = Some 0"
    using ne lst d(3) by (simp add: dataMap_last)
  then have v: "cvalue (dayCell data day) = Null"
    by (simp add: cvalue_dayCell s)
  have "filter (\<lambda>d'. date d' = date d) ?data' = []"
    by (auto simp: filter_empty_conv)
  then have "dataMap ?data' (date d) = None"
    by (simp add: dataMap_last)
  then have v': "cvalue (dayCell ?data' day) = Null"
    by (simp add: cvalue_dayCell s)
  have eq: "dayCell ?data' day = dayCell data day"
    using v v' dayCell_eq [of data day] dayCell_eq [of ?data' day] by simp
  have "Some cell \<in> set (calendarData ?data' year)"
    unfolding cells_of_frame
  proof (rule bexI [of _ day])
    show "cell = dayCell ?data' day" using c eq by simp
  next
    show "day \<in> set (eachDayOfYear (startOfYear (newDateYMD year 0 1)) (endOfYear (newDateYMD year 0 1)))"
      by (rule day)
  qed
  with v c show ?thesis by simp
qed

lemma jan1_in_frame:
  "Some (dayCell data (startOfYear (newDateYMD year 0 1))) \<in> set (calendarData data year)"
proof -
  obtain rest where r: "calendarData data year =
     padding year @ Some (dayCell data (startOfYear (newDateYMD year 0 1))) # rest"
    using calendarData_first by blast
  show ?thesis unfolding r by simp
qed

theorem zero_reading_is_null_witness:
  "cvalue (dayCell [\<lparr>date = ''2025-01-01'', val = 0\<rparr>] (JSDate 2025 0 1)) = Null \<and>
   Some (dayCell [\<lparr>date = ''2025-01-01'', val = 0\<rparr>] (JSDate 2025 0 1)) \<in> set (calendarData [] 2025)"
proof -
  let ?d = "\<lparr>date = ''2025-01-01'', val = 0\<rparr>"
  let ?cell = "dayCell [?d] (JSDate 2025 0 1)"
  have 1: "Some ?cell \<in> set (calendarData [?d] 2025)"
    using jan1_in_frame [of "[?d]" 2025] unfolding jan1_2025 .
  have f: "format_yyyy_MM_dd (JSDate 2025 0 1) = ''2025-01-01''"
    by (simp add: format_yyyy_MM_dd_def addLeadingZeros_def decimal.simps digitChar_def)
  have 2: "date ?d = dateStr ?cell" unfolding dateStr_dayCell f by simp
  have 3: "last (filter (\<lambda>d'. date d' = date ?d) [?d]) = ?d" by simp
  from zero_reading_is_null [OF 1 _ 2 _ 3] show ?thesis by simp
qed

section \<open>Properties of the moving average\<close>

lemma those_map_Some:
  "those (map f xs) = Some ys \<longleftrightarrow> (\<forall>x\<in>set xs. f x \<noteq> None) \<and> ys = map (\<lambda>x. the (f x)) xs"
proof (induction xs arbitrary: ys)
  case Nil
  then show ?case by auto
next
  case (Cons x xs)
  then show ?case by (cases "f x"; cases "those (map f xs)") auto
qed

lemma timestamps_Some:
  "timestamps data = Some ts \<longleftrightarrow>
     (\<forall>p\<in>set data. newDate (date p) \<noteq> None) \<and> ts = map timeOf data"
proof -
  have "\<forall>p\<in>set data. newDate (date p) \<noteq> None \<Longrightarrow>
        map (\<lambda>p. the (map_option getTime (newDate (date p)))) data = map timeOf data"
    by (induction data) (auto simp: timeOf_def)
  then show ?thesis
    unfolding timestamps_def those_map_Some by auto
qed

lemma insort_key_pair:
  "insort_key fst (f x, x) (map (\<lambda>y. (f y, y)) ys) = map (\<lambda>y. (f y, y)) (insort_key f x ys)"
  by (induction ys) simp_all

lemma sort_key_pair:
  "sort_key fst (map (\<lambda>y. (f y, y)) xs) = map (\<lambda>y. (f y, y)) (sort_key f xs)"
  by (induction xs) (simp_all add: insort_key_pair)

lemma zip_map_self: "zip (map f xs) xs = map (\<lambda>y. (f y, y)) xs"
  by (induction xs) simp_all

lemma sortByDate_Some:
  assumes "timestamps data = Some ts"
  shows "sortByDate data = Some (sort_key timeOf data)"
proof -
  from assms have ts: "ts = map timeOf data" by (simp add: timestamps_Some)
  show ?thesis
    unfolding sortByDate_def assms ts by (simp add: zip_map_self sort_key_pair comp_def)
qed

lemma sortByDate_sorted:
  assumes "timestamps data = Some ts" "sorted ts"
  shows "sortByDate data = Some data"
proof -
  from assms have "sorted (map timeOf data)" by (simp add: timestamps_Some)
  then have "sort_key timeOf data = data" by (rule sort_key_id_if_sorted)
  with sortByDate_Some [OF assms(1)] show ?thesis by simp
qed

lemma foldl_sum_upt:
  "foldl (\<lambda>s i. s + g i) (a::rat) [0..<n] = a + (\<Sum>i<n. g i)"
  by (induction n) (simp_all add: add.assoc)

lemma window_reindex:
  fixes g :: "nat \<Rightarrow> rat"
  assumes "W \<le> Suc i"
  shows "(\<Sum>j<W. g (i - j)) = (\<Sum>k = Suc i - W..i. g k)"
  by (rule sum.reindex_bij_witness [where i = "\<lambda>k. i - k" and j = "\<lambda>j. i - j"])
     (use assms in auto)

lemma movingAverage_mean:
  assumes "0 < W"
  shows "movingAverage W xs i = (if W - 1 \<le> i then Num (windowMean W xs i) else Null)"
proof (cases "W - 1 \<le> i")
  case True
  with assms have le: "W \<le> Suc i" by simp
  from True have g: "int W - 1 \<le> int i" by linarith
  show ?thesis
    using assms True g
    by (simp add: movingAverage_def Let_def foldl_sum_upt window_reindex [OF le, of "\<lambda>k. val (xs ! k)"] windowMean_def)
next
  case False
  then have "\<not> int W - 1 \<le> int i" by linarith
  with False show ?thesis by (simp add: movingAverage_def)
qed

lemma trendData_sorted:
  assumes "timestamps data = Some ts" "sorted ts"
  shows "trendData W data = Some (map (trendPoint W data) [0..<length data])"
  using sortByDate_sorted [OF assms] by (simp add: trendData_def)

text \<open>
  C5. For a series whose dates parse and are in ascending order, and a window size
  \<open>W > 0\<close>, the output has one row per reading, in the order of the input; the row at
  index \<open>i\<close> carries the moving average null when \<open>i < W - 1\<close> and otherwise the mean
  of the \<open>W\<close> values at the index positions \<open>i - W + 1\<close> to \<open>i\<close>, whatever the
  calendar gaps between them. With \<open>W = 7\<close> on the values 10 to 70 of seven consecutive
  days the moving averages are six nulls and then 40.
\<close>

theorem moving_average_window:
  "(timestamps data = Some ts \<and> sorted ts \<and> 0 < W \<longrightarrow>
      (\<exists>rows. trendData W data = Some rows \<and> length rows = length data \<and>
         (\<forall>i<length data.
            date (rows ! i) = date (data ! i) \<and> val (rows ! i) = val (data ! i) \<and>
            ma (rows ! i) = (if W - 1 \<le> i then Num (windowMean W data i) else Null)))) \<and>
   map_option (map ma)
     (trendData 7 [\<lparr>date = ''2025-03-01'', val = 10\<rparr>, \<lparr>date = ''2025-03-02'', val = 20\<rparr>,
                   \<lparr>date = ''2025-03-03'', val = 30\<rparr>, \<lparr>date = ''2025-03-04'', val = 40\<rparr>,
                   \<lparr>date = ''2025-03-05'', val = 50\<rparr>, \<lparr>date = ''2025-03-06'', val = 60\<rparr>,
                   \<lparr>date = ''2025-03-07'', val = 70\<rparr>])
     = Some [Null, Null, Null, Null, Null, Null, Num 40]"
proof -
  have general: "\<exists>rows. trendData W data = Some rows \<and> length rows = length data \<and>
         (\<forall>i<length data.
            date (rows ! i) = date (data ! i) \<and> val (rows ! i) = val (data ! i) \<and>
            ma (rows ! i) = (if W - 1 \<le> i then Num (windowMean W data i) else Null))"
    if a: "timestamps data = Some ts" "sorted ts" "0 < W"
  proof (intro exI conjI)
    show "trendData W data = Some (map (trendPoint W data) [0..<length data])"
      using a(1,2) by (rule trendData_sorted)
    show "length (map (trendPoint W data) [0..<length data]) = length data" by simp
    show "\<forall>i<length data.
            date (map (trendPoint W data) [0..<length data] ! i) = date (data ! i) \<and>
            val (map (trendPoint W data) [0..<length data] ! i) = val (data ! i) \<and>
            ma (map (trendPoint W data) [0..<length data] ! i)
              = (if W - 1 \<le> i then Num (windowMean W data i) else Null)"
      using a(3) by (simp add: trendPoint_def movingAverage_mean)
  qed
  let ?ex = "[\<lparr>date = ''2025-03-01'', val = 10\<rparr>, \<lparr>date = ''2025-03-02'', val = 20\<rparr>,
                   \<lparr>date = ''2025-03-03'', val = 30\<rparr>, \<lparr>date = ''2025-03-04'', val = 40\<rparr>,
                   \<lparr>date = ''2025-03-05'', val = 50\<rparr>, \<lparr>date = ''2025-03-06'', val = 60\<rparr>,
                   \<lparr>date = ''2025-03-07'', val = 70\<rparr>]"
  have ts: "timestamps ?ex = Some (map (\<lambda>k. 86400000 * k) [20148, 20149, 20150, 20151, 20152, 20153, 20154])"
    by code_simp
  have "trendData 7 ?ex = Some (map (trendPoint 7 ?ex) [0..<length ?ex])"
    by (rule trendData_sorted [OF ts]) simp
  also have "map_option (map ma) \<dots> = Some [Null, Null, Null, Null, Null, Null, Num 40]"
    by (simp add: trendPoint_def movingAverage_def upt_rec numeral_nat)
  finally have example: "map_option (map ma) (trendData 7 ?ex)
      = Some [Null, Null, Null, Null, Null, Null, Num 40]" .
  from general example show ?thesis by blast
qed


theorem moving_average_window_witness:
  "\<exists>rows. trendData 2 [\<lparr>date = ''2025-03-01'', val = 10\<rparr>, \<lparr>date = ''2025-03-02'', val = 20\<rparr>,
                        \<lparr>date = ''2025-03-09'', val = 30\<rparr>] = Some rows \<and>
      length rows = 3 \<and> ma (rows ! 0) = Null \<and> ma (rows ! 1) = Num 15 \<and> ma (rows ! 2) = Num 25"
proof -
  let ?d = "[\<lparr>date = ''2025-03-01'', val = 10\<rparr>, \<lparr>date = ''2025-03-02'', val = 20\<rparr>,
             \<lparr>date = ''2025-03-09'', val = 30\<rparr>]"
  let ?ts = "map (\<lambda>k. 86400000 * k) [20148, 20149, 20156 :: int]"
  have ts: "timestamps ?d = Some ?ts" by code_simp
  have s: "sorted ?ts" by simp
  have w1: "windowMean 2 ?d 1 = 15" by code_simp
  have w2: "windowMean 2 ?d 2 = 25" by code_simp
  from moving_average_window [of ?d ?ts 2] ts s
  obtain rows where r: "trendData 2 ?d = Some rows" "length rows = length ?d"
    and m: "\<forall>i<length ?d. ma (rows ! i) = (if 2 - 1 \<le> i then Num (windowMean 2 ?d i) else Null)"
    by auto
  from m have "ma (rows ! 0) = Null" by simp
  moreover from m have "ma (rows ! 1) = Num (windowMean 2 ?d 1)" by simp
  moreover from m have "ma (rows ! 2) = Num (windowMean 2 ?d 2)" by simp
  ultimately show ?thesis using r w1 w2 by simp
qed







section \<open>Properties of the weekly alignment\<close>

lemma chartData_guard:
  "yearHDCOf pm25Data province hdcData selectedYear = None \<Longrightarrow>
     chartData pm25Data province hdcData selectedDisease selectedYear = [] \<and>
     chartData2 pm25Data province hdcData selectedDisease selectedYear = []"
  by (simp add: chartData_def chartData2_def)

lemma in_weekRow:
  "r \<in> set (weekRow pm25Data yearHDC selectedDisease selectedYear i) \<longleftrightarrow>
     (avgPM25 selectedYear pm25Data (i + 1) \<noteq> Null \<or> caseCount yearHDC selectedDisease i \<noteq> Null) \<and>
     r = \<lparr>week = i + 1, pm25 = avgPM25 selectedYear pm25Data (i + 1),
          cases = caseCount yearHDC selectedDisease i\<rparr>"
  by (auto simp: weekRow_def Let_def)

lemma in_chartData:
  assumes "yearHDCOf pm25Data province hdcData selectedYear = Some (h, yearHDC)"
  shows "r \<in> set (chartData pm25Data province hdcData selectedDisease selectedYear) \<longleftrightarrow>
     (\<exists>i<53. r \<in> set (weekRow pm25Data yearHDC selectedDisease selectedYear i))"
  using assms by (auto simp: chartData_def)

lemma addGroup_step:
  "hasHealthData (addGroup y i acc g) = (hasHealthData acc \<or> groupCount y i g \<noteq> None)"
  "totalCases (addGroup y i acc g)
     = totalCases acc + (case groupCount y i g of Some c \<Rightarrow> c | None \<Rightarrow> 0)"
  "groupCounts (addGroup y i acc g) g'
     = (if g' = g \<and> groupCount y i g \<noteq> None then groupCount y i g else groupCounts acc g')"
  by (auto simp: addGroup_def groupCount_def split: option.splits)

lemma foldl_addGroup_has:
  "hasHealthData (foldl (addGroup y i) acc gs)
     = (hasHealthData acc \<or> (\<exists>g\<in>set gs. groupCount y i g \<noteq> None))"
  by (induction gs arbitrary: acc) (auto simp: addGroup_step)

lemma foldl_addGroup_total:
  "totalCases (foldl (addGroup y i) acc gs) = totalCases acc + sumOfGroups gs y i"
  by (induction gs arbitrary: acc) (simp_all add: addGroup_step sumOfGroups_def)

lemma foldl_addGroup_counts:
  "groupCounts (foldl (addGroup y i) acc gs) g
     = (if g \<in> set gs \<and> groupCount y i g \<noteq> None then groupCount y i g else groupCounts acc g)"
  by (induction gs arbitrary: acc) (auto simp: addGroup_step)

lemma groupAcc_props:
  "hasHealthData (groupAcc gs y i) = (\<exists>g\<in>set gs. groupCount y i g \<noteq> None)"
  "totalCases (groupAcc gs y i) = sumOfGroups gs y i"
  "groupCounts (groupAcc gs y i) g = (if g \<in> set gs then groupCount y i g else None)"
  unfolding groupAcc_def
  by (auto simp: foldl_addGroup_has foldl_addGroup_total foldl_addGroup_counts)

lemma pushWeekly_at:
  "pushWeekly selectedYear wk d w = (if inWeek selectedYear w d then wk w @ [val d] else wk w)"
  by (auto simp: pushWeekly_def inWeek_def Let_def split: option.splits)

lemma foldl_pushWeekly:
  "foldl (pushWeekly selectedYear) wk data w = wk w @ map val (filter (inWeek selectedYear w) data)"
  by (induction data arbitrary: wk) (simp_all add: pushWeekly_at)

lemma weeklyPM25_values:
  "weeklyPM25 selectedYear data w = map val (filter (inWeek selectedYear w) data)"
  by (simp add: weeklyPM25_def foldl_pushWeekly)

lemma in_weekRow2:
  "r \<in> set (weekRow2 pm25Data gs yearHDC selectedDisease selectedYear i) \<longleftrightarrow>
     (avgPM25 selectedYear pm25Data (i + 1) \<noteq> Null \<or> (\<exists>g\<in>set gs. groupCount yearHDC i g \<noteq> None)) \<and>
     r = row2 (i + 1) (avgPM25 selectedYear pm25Data (i + 1)) (groupAcc gs yearHDC i) selectedDisease"
  by (auto simp: weekRow2_def Let_def groupAcc_props)

lemma in_chartData2:
  assumes "yearHDCOf pm25Data province hdcData selectedYear = Some (h, yearHDC)"
  shows "r \<in> set (chartData2 pm25Data province hdcData selectedDisease selectedYear) \<longleftrightarrow>
     (\<exists>i<53. r \<in> set (weekRow2 pm25Data (groups h) yearHDC selectedDisease selectedYear i))"
  using assms by (auto simp: chartData2_def)

lemma week_index: "(\<exists>i<53. P (i + 1) i) \<longleftrightarrow> (\<exists>w. 1 \<le> w \<and> w \<le> 53 \<and> P w (w - 1))" for P :: "nat \<Rightarrow> nat \<Rightarrow> bool"
proof
  assume "\<exists>i<53. P (i + 1) i"
  then obtain i where "i < 53" "P (i + 1) i" by blast
  then have "1 \<le> i + 1 \<and> i + 1 \<le> 53 \<and> P (i + 1) (i + 1 - 1)" by simp
  then show "\<exists>w. 1 \<le> w \<and> w \<le> 53 \<and> P w (w - 1)" by blast
next
  assume "\<exists>w. 1 \<le> w \<and> w \<le> 53 \<and> P w (w - 1)"
  then obtain w where w: "1 \<le> w" "w \<le> 53" "P w (w - 1)" by blast
  then have "w - 1 < 53" "P (w - 1 + 1) (w - 1)" by simp_all
  then show "\<exists>i<53. P (i + 1) i" by blast
qed

text \<open>
  C4 (as amended). When the health dataset has no entry for the province and the selected
  year, or the PM2.5 series is empty, no row is emitted. Otherwise the rows are exactly
  these: in the first version, for each week \<open>w\<close> of 1..53 whose PM2.5 average or whose
  case count of the selected category is not null, the row of \<open>w\<close> with that average
  and that case count (so a week with only PM2.5 data has the case count null, and a week
  with neither has no row); in the second version, for each week \<open>w\<close> of 1..53 whose
  PM2.5 average is not null or for which some listed group has a count, the row object of
  \<open>w\<close>.
\<close>

theorem weekly_rows_emitted:
  "(yearHDCOf pm25Data province hdcData selectedYear = None \<longrightarrow>
      chartData pm25Data province hdcData selectedDisease selectedYear = [] \<and>
      chartData2 pm25Data province hdcData selectedDisease selectedYear = []) \<and>
   (yearHDCOf pm25Data province hdcData selectedYear = Some (h, yearHDC) \<longrightarrow>
      (r \<in> set (chartData pm25Data province hdcData selectedDisease selectedYear) \<longleftrightarrow>
         (\<exists>w. 1 \<le> w \<and> w \<le> 53 \<and>
            (avgPM25 selectedYear pm25Data w \<noteq> Null \<or> caseCount yearHDC selectedDisease (w - 1) \<noteq> Null) \<and>
            r = \<lparr>week = w, pm25 = avgPM25 selectedYear pm25Data w,
                 cases = caseCount yearHDC selectedDisease (w - 1)\<rparr>)) \<and>
      (r2 \<in> set (chartData2 pm25Data province hdcData selectedDisease selectedYear) \<longleftrightarrow>
         (\<exists>w. 1 \<le> w \<and> w \<le> 53 \<and>
            (avgPM25 selectedYear pm25Data w \<noteq> Null \<or>
             (\<exists>g\<in>set (groups h). groupCount yearHDC (w - 1) g \<noteq> None)) \<and>
            r2 = row2 w (avgPM25 selectedYear pm25Data w) (groupAcc (groups h) yearHDC (w - 1))
                   selectedDisease)))"
proof -
  have v1: "r \<in> set (chartData pm25Data province hdcData selectedDisease selectedYear) \<longleftrightarrow>
         (\<exists>w. 1 \<le> w \<and> w \<le> 53 \<and>
            (avgPM25 selectedYear pm25Data w \<noteq> Null \<or> caseCount yearHDC selectedDisease (w - 1) \<noteq> Null) \<and>
            r = \<lparr>week = w, pm25 = avgPM25 selectedYear pm25Data w,
                 cases = caseCount yearHDC selectedDisease (w - 1)\<rparr>)"
    if g: "yearHDCOf pm25Data province hdcData selectedYear = Some (h, yearHDC)"
    unfolding in_chartData [OF g] in_weekRow
    by (rule week_index [of "\<lambda>w i. (avgPM25 selectedYear pm25Data w \<noteq> Null \<or> caseCount yearHDC selectedDisease i \<noteq> Null) \<and>
            r = \<lparr>week = w, pm25 = avgPM25 selectedYear pm25Data w,
                 cases = caseCount yearHDC selectedDisease i\<rparr>"])
  have v2: "r2 \<in> set (chartData2 pm25Data province hdcData selectedDisease selectedYear) \<longleftrightarrow>
         (\<exists>w. 1 \<le> w \<and> w \<le> 53 \<and>
            (avgPM25 selectedYear pm25Data w \<noteq> Null \<or>
             (\<exists>g\<in>set (groups h). groupCount yearHDC (w - 1) g \<noteq> None)) \<and>
            r2 = row2 w (avgPM25 selectedYear pm25Data w) (groupAcc (groups h) yearHDC (w - 1))
                   selectedDisease)"
    if g: "yearHDCOf pm25Data province hdcData selectedYear = Some (h, yearHDC)"
    unfolding in_chartData2 [OF g] in_weekRow2
    by (rule week_index [of "\<lambda>w i. (avgPM25 selectedYear pm25Data w \<noteq> Null \<or>
             (\<exists>g\<in>set (groups h). groupCount yearHDC i g \<noteq> None)) \<and>
            r2 = row2 w (avgPM25 selectedYear pm25Data w) (groupAcc (groups h) yearHDC i)
                   selectedDisease"])
  from v1 v2 chartData_guard [of pm25Data province hdcData selectedYear selectedDisease]
  show ?thesis by blast
qed

lemma example_guard:
  "yearHDCOf examplePM25 ''Chonburi'' (Some exampleHDC) 2025 = Some (exampleHDC, exampleYear)"
  by (simp add: yearHDCOf_def exampleHDC_def examplePM25_def)

lemma example_avg2: "avgPM25 2025 examplePM25 2 = Num 10"
  by code_simp

lemma example_avg5: "avgPM25 2025 examplePM25 5 = Null"
  by code_simp

lemma example_avg1: "avgPM25 2025 examplePM25 1 = Null"
  by code_simp

theorem weekly_rows_emitted_witness:
  "\<lparr>week = 2, pm25 = Num 10, cases = Null\<rparr>
     \<in> set (chartData examplePM25 ''Chonburi'' (Some exampleHDC) ''Eye'' 2025) \<and>
   \<lparr>week = 5, pm25 = Null, cases = Null\<rparr>
     \<notin> set (chartData examplePM25 ''Chonburi'' (Some exampleHDC) ''Eye'' 2025) \<and>
   row2 5 Null (groupAcc [''Respiratory'', ''Skin''] exampleYear 4) ''Eye''
     \<in> set (chartData2 examplePM25 ''Chonburi'' (Some exampleHDC) ''Eye'' 2025) \<and>
   chartData examplePM25 ''Rayong'' (Some exampleHDC) ''Eye'' 2025 = []"
proof -
  have c: "caseCount exampleYear ''Eye'' i = Null" for i
    by (simp add: caseCount_def exampleYear_def)
  have g: "groupCount exampleYear 4 ''Skin'' \<noteq> None"
    by (simp add: groupCount_def exampleYear_def)
  have n: "yearHDCOf examplePM25 ''Rayong'' (Some exampleHDC) 2025 = None"
    by (simp add: yearHDCOf_def exampleHDC_def)
  have gs: "groups exampleHDC = [''Respiratory'', ''Skin'']" by (simp add: exampleHDC_def)
  let ?r1 = "\<lparr>week = 2, pm25 = Num 10, cases = Null\<rparr>"
  let ?r2 = "\<lparr>week = 5, pm25 = Null, cases = Null\<rparr>"
  let ?r3 = "row2 5 Null (groupAcc [''Respiratory'', ''Skin''] exampleYear 4) ''Eye''"
  have i1: "?r1 \<in> set (chartData examplePM25 ''Chonburi'' (Some exampleHDC) ''Eye'' 2025) \<longleftrightarrow>
      (\<exists>w. 1 \<le> w \<and> w \<le> 53 \<and>
            (avgPM25 2025 examplePM25 w \<noteq> Null \<or> caseCount exampleYear ''Eye'' (w - 1) \<noteq> Null) \<and>
            ?r1 = \<lparr>week = w, pm25 = avgPM25 2025 examplePM25 w,
                 cases = caseCount exampleYear ''Eye'' (w - 1)\<rparr>)"
    using weekly_rows_emitted [of examplePM25 "''Chonburi''" "Some exampleHDC" 2025 "''Eye''"
      exampleHDC exampleYear ?r1] example_guard by blast
  have i2: "?r2 \<in> set (chartData examplePM25 ''Chonburi'' (Some exampleHDC) ''Eye'' 2025) \<longleftrightarrow>
      (\<exists>w. 1 \<le> w \<and> w \<le> 53 \<and>
            (avgPM25 2025 examplePM25 w \<noteq> Null \<or> caseCount exampleYear ''Eye'' (w - 1) \<noteq> Null) \<and>
            ?r2 = \<lparr>week = w, pm25 = avgPM25 2025 examplePM25 w,
                 cases = caseCount exampleYear ''Eye'' (w - 1)\<rparr>)"
    using weekly_rows_emitted [of examplePM25 "''Chonburi''" "Some exampleHDC" 2025 "''Eye''"
      exampleHDC exampleYear ?r2] example_guard by blast
  have i3: "?r3 \<in> set (chartData2 examplePM25 ''Chonburi'' (Some exampleHDC) ''Eye'' 2025) \<longleftrightarrow>
      (\<exists>w. 1 \<le> w \<and> w \<le> 53 \<and>
            (avgPM25 2025 examplePM25 w \<noteq> Null \<or>
             (\<exists>g\<in>set (groups exampleHDC). groupCount exampleYear (w - 1) g \<noteq> None)) \<and>
            ?r3 = row2 w (avgPM25 2025 examplePM25 w) (groupAcc (groups exampleHDC) exampleYear (w - 1))
                   ''Eye'')"
    using weekly_rows_emitted [of examplePM25 "''Chonburi''" "Some exampleHDC" 2025 "''Eye''"
      exampleHDC exampleYear _ ?r3] example_guard by blast
  have 1: "?r1 \<in> set (chartData examplePM25 ''Chonburi'' (Some exampleHDC) ''Eye'' 2025)"
    unfolding i1 by (rule exI [of _ 2]) (simp add: example_avg2 c)
  have 2: "?r2 \<notin> set (chartData examplePM25 ''Chonburi'' (Some exampleHDC) ''Eye'' 2025)"
    unfolding i2
  proof
    assume "\<exists>w. 1 \<le> w \<and> w \<le> 53 \<and>
            (avgPM25 2025 examplePM25 w \<noteq> Null \<or> caseCount exampleYear ''Eye'' (w - 1) \<noteq> Null) \<and>
            ?r2 = \<lparr>week = w, pm25 = avgPM25 2025 examplePM25 w,
                 cases = caseCount exampleYear ''Eye'' (w - 1)\<rparr>"
    then obtain w where w: "avgPM25 2025 examplePM25 w \<noteq> Null \<or> caseCount exampleYear ''Eye'' (w - 1) \<noteq> Null"
      and e: "?r2 = \<lparr>week = w, pm25 = avgPM25 2025 examplePM25 w,
                 cases = caseCount exampleYear ''Eye'' (w - 1)\<rparr>" by blast
    from e have "w = 5" by simp
    with w example_avg5 c show False by simp
  qed
  have 3: "?r3 \<in> set (chartData2 examplePM25 ''Chonburi'' (Some exampleHDC) ''Eye'' 2025)"
    unfolding i3 gs
  proof (rule exI [of _ 5], intro conjI)
    show "avgPM25 2025 examplePM25 5 \<noteq> Null \<or>
      (\<exists>g\<in>set [''Respiratory'', ''Skin'']. groupCount exampleYear (5 - 1) g \<noteq> None)"
      using g by simp
    show "?r3 = row2 5 (avgPM25 2025 examplePM25 5) (groupAcc [''Respiratory'', ''Skin''] exampleYear (5 - 1)) ''Eye''"
      by (simp add: example_avg5)
  qed simp_all
  have 4: "chartData examplePM25 ''Rayong'' (Some exampleHDC) ''Eye'' 2025 = []"
    using weekly_rows_emitted [of examplePM25 "''Rayong''" "Some exampleHDC" 2025 "''Eye''"] n
    by blast
  from 1 2 3 4 show ?thesis by blast
qed

text \<open>
  C4 as stated fails where the guard returns early: week 2 has a PM2.5 average but the
  province has no health data, and week 1 has a case count but the PM2.5 series is empty;
  in both cases no row is emitted.
\<close>

theorem guard_counterexample:
  "avgPM25 2025 examplePM25 2 = Num 10 \<and>
   chartData examplePM25 ''Rayong'' (Some exampleHDC) ''Total'' 2025 = [] \<and>
   chartData2 examplePM25 ''Rayong'' (Some exampleHDC) ''Total'' 2025 = [] \<and>
   caseCount exampleYear ''Respiratory'' 0 = Num 3 \<and>
   chartData [] ''Chonburi'' (Some exampleHDC) ''Respiratory'' 2025 = [] \<and>
   chartData2 [] ''Chonburi'' (Some exampleHDC) ''Respiratory'' 2025 = []"
proof -
  have n: "yearHDCOf examplePM25 ''Rayong'' (Some exampleHDC) 2025 = None"
    by (simp add: yearHDCOf_def exampleHDC_def)
  have e: "yearHDCOf [] ''Chonburi'' (Some exampleHDC) 2025 = None"
    by (simp add: yearHDCOf_def exampleHDC_def)
  have c: "caseCount exampleYear ''Respiratory'' 0 = Num 3"
    by (simp add: caseCount_def exampleYear_def)
  from chartData_guard [OF n] chartData_guard [OF e] c example_avg2 show ?thesis by simp
qed

lemma total_is_sum_of_groups:
  assumes "yearHDCOf pm25Data province hdcData selectedYear = Some (h, yearHDC)"
    and "r \<in> set (chartData2 pm25Data province hdcData ''Total'' selectedYear)"
    and "''cases'' \<notin> set (groups h)"
  shows "\<exists>w. 1 \<le> w \<and> w \<le> 53 \<and> r ''cases'' = Some (Num (sumOfGroups (groups h) yearHDC (w - 1)))"
proof -
  from assms(2) obtain i where i: "i < 53"
    and r: "r = row2 (i + 1) (avgPM25 selectedYear pm25Data (i + 1)) (groupAcc (groups h) yearHDC i) ''Total''"
    unfolding in_chartData2 [OF assms(1)] in_weekRow2 by blast
  have "r ''cases'' = Some (Num (sumOfGroups (groups h) yearHDC i))"
    unfolding r using assms(3) by (simp add: row2_def map_add_def groupAcc_props)
  with i show ?thesis by (intro exI [of _ "i + 1"]) simp
qed

text \<open>
  C3. The first version reads the case count of \<open>Total\<close> from the array stored under
  that name: with the counts 3 and 1 of the two listed groups and a stored total of 100,
  the row of week 1 carries 100, not the sum 4. The second version, on the same input,
  carries the sum of the listed groups.
\<close>

theorem stored_total_is_read:
  "sumOfGroups (groups exampleHDC) exampleYear 0 = 4 \<and>
   \<lparr>week = 1, pm25 = Null, cases = Num 100\<rparr>
     \<in> set (chartData examplePM25 ''Chonburi'' (Some exampleHDC) ''Total'' 2025) \<and>
   \<not> (\<exists>r\<in>set (chartData examplePM25 ''Chonburi'' (Some exampleHDC) ''Total'' 2025).
         week r = 1 \<and> cases r \<noteq> Num 100) \<and>
   \<not> (\<exists>r\<in>set (chartData2 examplePM25 ''Chonburi'' (Some exampleHDC) ''Total'' 2025).
         r ''week'' = Some (Num 1) \<and> r ''cases'' \<noteq> Some (Num 4))"
proof -
  have s: "sumOfGroups (groups exampleHDC) exampleYear 0 = 4"
    by (simp add: sumOfGroups_def groupCount_def exampleHDC_def exampleYear_def)
  have c: "caseCount exampleYear ''Total'' 0 = Num 100"
    by (simp add: caseCount_def exampleYear_def)
  have m: "r \<in> set (chartData examplePM25 ''Chonburi'' (Some exampleHDC) ''Total'' 2025) \<longleftrightarrow>
      (\<exists>i<53. r \<in> set (weekRow examplePM25 exampleYear ''Total'' 2025 i))" for r
    by (rule in_chartData [OF example_guard])
  have 1: "\<lparr>week = 1, pm25 = Null, cases = Num 100\<rparr>
     \<in> set (chartData examplePM25 ''Chonburi'' (Some exampleHDC) ''Total'' 2025)"
    unfolding m in_weekRow using c example_avg1 by (intro exI [of _ 0]) simp
  have 2: "cases r = Num 100"
    if "r \<in> set (chartData examplePM25 ''Chonburi'' (Some exampleHDC) ''Total'' 2025)" "week r = 1" for r
  proof -
    from that(1) obtain i where "i < 53" and r: "r = \<lparr>week = i + 1, pm25 = avgPM25 2025 examplePM25 (i + 1),
          cases = caseCount exampleYear ''Total'' i\<rparr>"
      unfolding m in_weekRow by blast
    with that(2) have "i = 0" by simp
    with r c show ?thesis by simp
  qed
  have 3: "r ''cases'' = Some (Num 4)"
    if "r \<in> set (chartData2 examplePM25 ''Chonburi'' (Some exampleHDC) ''Total'' 2025)"
      "r ''week'' = Some (Num 1)" for r
  proof -
    have g: "groups exampleHDC = [''Respiratory'', ''Skin'']" by (simp add: exampleHDC_def)
    from that(1) obtain i where "i < 53"
      and r: "r = row2 (i + 1) (avgPM25 2025 examplePM25 (i + 1))
                    (groupAcc (groups exampleHDC) exampleYear i) ''Total''"
      unfolding in_chartData2 [OF example_guard] in_weekRow2 by blast
    have wk: "r ''week'' = Some (Num (of_nat (i + 1)))"
      unfolding r by (simp add: row2_def map_add_def groupAcc_props g)
    with that(2) have "(of_nat (i + 1) :: rat) = 1" by simp
    then have "i = 0" by (metis add_cancel_right_left of_nat_eq_1_iff)
    have "r ''cases'' = Some (Num (sumOfGroups (groups exampleHDC) exampleYear i))"
      unfolding r by (simp add: row2_def map_add_def groupAcc_props g)
    with \<open>i = 0\<close> s show ?thesis by simp
  qed
  from s 1 2 3 show ?thesis by blast
qed

text \<open>
  C2. The weekly table selects by the calendar year of the reading, not by its ISO
  week-year. The reading of Monday 2024-12-30 belongs to ISO week 1 of 2025: for the
  selected year 2024 it is averaged into week 1 together with the reading of 2024-01-03,
  and for the selected year 2025 it is left out.
\<close>

theorem year_boundary_reading:
  "parseISO ''2024-12-30'' = Some (JSDate 2024 11 30) \<and>
   getISOWeekYear (JSDate 2024 11 30) = 2025 \<and> getISOWeek (JSDate 2024 11 30) = 1 \<and>
   parseISO ''2024-01-03'' = Some (JSDate 2024 0 3) \<and>
   getISOWeekYear (JSDate 2024 0 3) = 2024 \<and> getISOWeek (JSDate 2024 0 3) = 1 \<and>
   weeklyPM25 2024 boundaryPM25 1 = [10, 50] \<and> avgPM25 2024 boundaryPM25 1 = Num 30 \<and>
   weeklyPM25 2025 boundaryPM25 1 = [] \<and> avgPM25 2025 boundaryPM25 1 = Null"
proof -
  have p1: "parseISO ''2024-12-30'' = Some (JSDate 2024 11 30)" by code_simp
  have p2: "parseISO ''2024-01-03'' = Some (JSDate 2024 0 3)" by code_simp
  have y1: "getISOWeekYear (JSDate 2024 11 30) = 2025" by code_simp
  have y2: "getISOWeekYear (JSDate 2024 0 3) = 2024" by code_simp
  have w1: "getISOWeek (JSDate 2024 11 30) = 1" by code_simp
  have w2: "getISOWeek (JSDate 2024 0 3) = 1" by code_simp
  have a: "weeklyPM25 2024 boundaryPM25 1 = [10, 50]"
    by (simp add: weeklyPM25_values boundaryPM25_def inWeek_def p1 p2 w1 w2)
  have b: "weeklyPM25 2025 boundaryPM25 1 = []"
    by (simp add: weeklyPM25_values boundaryPM25_def inWeek_def p1 p2 w1 w2)
  have c: "avgPM25 2024 boundaryPM25 1 = Num 30"
    unfolding avgPM25_def a by (simp add: meanOrNull_def)
  have d: "avgPM25 2025 boundaryPM25 1 = Null"
    unfolding avgPM25_def b by (simp add: meanOrNull_def)
  from p1 p2 y1 y2 w1 w2 a b c d show ?thesis by simp
qed

end
